theory Spec2Isabelle
  imports Main
begin

section \<open>The code hierarchy\<close>

text \<open>
  \<^verbatim>\<open>type CodeStr string\<close>: the identifier of a code.
\<close>

type_synonym CodeStr = string

text \<open>
  A \<^verbatim>\<open>Code\<close> is a node of a forest: its identifier and a pointer to its parent, nil for a
  root. The metadata functions of the sources read exactly these two things of a code:
  \<^verbatim>\<open>code.CodeStr()\<close> and \<^verbatim>\<open>code.Parent\<close>. The struct declaration and \<^verbatim>\<open>CodeStr()\<close> are not
  part of the sources at hand, so the identifier is kept as one field holding what
  \<^verbatim>\<open>CodeStr()\<close> returns. Codes are never mutated after their creation, so the parent pointer
  is modelled by the parent's value, and \<open>None\<close> is the nil pointer.
\<close>

datatype Code = Code (codeStr: CodeStr) (Parent: "Code option")

text \<open>
  \<^verbatim>\<open>type MetaData map[CodeStr]interface{}\<close>. A value of a Go map type is either nil, the zero
  value of the type, or a map that \<^verbatim>\<open>make\<close> has allocated: \<open>NilMetaData\<close>, or \<open>MetaData m\<close> with
  the entries \<open>m\<close>. One store holds one kind of value (the HTTP store holds \<^verbatim>\<open>int\<close>s only:
  \<^verbatim>\<open>SetHTTP\<close> is its only writer), so the entries map to a type \<open>'v\<close> of values.
\<close>

datatype 'v MetaData = NilMetaData | MetaData "CodeStr \<rightharpoonup> 'v"

text \<open>
  The read \<^verbatim>\<open>existing, ok := metaData[key]\<close>: \<open>None\<close> when \<^verbatim>\<open>ok\<close> is false. Reading a nil map
  is allowed in Go and finds no key.
\<close>

fun MetaData_index :: "'v MetaData \<Rightarrow> CodeStr \<Rightarrow> 'v option" where
  "MetaData_index NilMetaData key = None"
| "MetaData_index (MetaData m) key = m key"

text \<open>
  \<^verbatim>\<open>func (code Code) MetaDataFromAncestors(metaData MetaData) interface{}\<close>: the value stored
  for the code's identifier, else the answer of the parent, else nil (\<open>None\<close>) at a root.
\<close>

fun MetaDataFromAncestors :: "Code \<Rightarrow> 'v MetaData \<Rightarrow> 'v option" where
  "MetaDataFromAncestors (Code s p) metaData =
     (case MetaData_index metaData s of
        Some existing \<Rightarrow> Some existing
      | None \<Rightarrow>
          (case p of
             None \<Rightarrow> None
           | Some parent \<Rightarrow> MetaDataFromAncestors parent metaData))"

text \<open>
  \<^verbatim>\<open>type existingCodeError struct { existingMetaData interface{}; code Code }\<close>
\<close>

record 'v existingCodeError =
  existingMetaData :: 'v
  ece_code :: Code

text \<open>
  \<^verbatim>\<open>func (e existingCodeError) Error() string\<close> is
  \<^verbatim>\<open>fmt.Sprintf("for code %v metadata exists: %v", e.code, e.existingMetaData)\<close>.
  How \<^verbatim>\<open>%v\<close> prints a code and a stored value belongs to the formatting library: both
  printers are parameters.
\<close>

definition existingCodeError_Error ::
    "(Code \<Rightarrow> string) \<Rightarrow> ('v \<Rightarrow> string) \<Rightarrow> 'v existingCodeError \<Rightarrow> string" where
  "existingCodeError_Error fmtCode fmtValue e =
     ''for code '' @ fmtCode (ece_code e) @ '' metadata exists: '' @ fmtValue (existingMetaData e)"

text \<open>
  Everything that stops the program: the panics of the sources, and those of the Go
  run time for a method call on a nil interface and for an assignment to an entry of a nil
  map.
\<close>

datatype panic =
    PanicStr string
  | NotInternalCode Code
  | NilDereference
  | NilMapAssignment
  | SetHTTPConflict "int existingCodeError"
  | CodeExists CodeStr

text \<open>
  \<^verbatim>\<open>func (code Code) SetMetaData(metaData MetaData, item interface{}) error\<close>. The Go map is
  mutated in place; the model returns the store after the call together with the returned
  error (\<open>None\<close> for nil). The assignment \<^verbatim>\<open>metaData[code.CodeStr()] = item\<close> panics on a nil
  map, which the read before it has found empty.
\<close>

definition SetMetaData ::
    "Code \<Rightarrow> 'v MetaData \<Rightarrow> 'v \<Rightarrow> panic + ('v MetaData \<times> 'v existingCodeError option)" where
  "SetMetaData code' metaData item =
     (case MetaData_index metaData (codeStr code') of
        Some existingCode \<Rightarrow>
          Inr (metaData, Some \<lparr>existingMetaData = existingCode, ece_code = code'\<rparr>)
      | None \<Rightarrow>
          (case metaData of
             NilMetaData \<Rightarrow> Inl NilMapAssignment
           | MetaData m \<Rightarrow> Inr (MetaData (m(codeStr code' \<mapsto> item)), None)))"

text \<open>
  \<^verbatim>\<open>func (code Code) SetHTTP(httpCode int) Code\<close> writes the package's \<^verbatim>\<open>httpMetaData\<close>, here an
  explicit argument and result, and panics on a conflict:
  \<^verbatim>\<open>panic(errors.Annotate(err, "SetHTTP"))\<close>.
\<close>

definition SetHTTP :: "Code \<Rightarrow> int \<Rightarrow> int MetaData \<Rightarrow> panic + (Code \<times> int MetaData)" where
  "SetHTTP code' httpCode httpMetaData =
     (case SetMetaData code' httpMetaData httpCode of
        Inl p \<Rightarrow> Inl p
      | Inr (_, Some err) \<Rightarrow> Inl (SetHTTPConflict err)
      | Inr (httpMetaData', None) \<Rightarrow> Inr (code', httpMetaData'))"

text \<open>
  \<^verbatim>\<open>func (code Code) HTTPCode() int\<close> reads \<^verbatim>\<open>httpMetaData\<close>; \<^verbatim>\<open>http.StatusBadRequest\<close> is 400.
  The store holds \<^verbatim>\<open>int\<close>s only, so the assertion \<^verbatim>\<open>httpCode.(int)\<close> cannot fail.
\<close>

definition HTTPCode :: "int MetaData \<Rightarrow> Code \<Rightarrow> int" where
  "HTTPCode httpMetaData code' =
     (case MetaDataFromAncestors code' httpMetaData of
        None \<Rightarrow> 400
      | Some httpCode \<Rightarrow> httpCode)"

text \<open>
  For the specification of the lookup: a code followed by its ancestors, nearest first.
\<close>

fun ancestry :: "Code \<Rightarrow> Code list" where
  "ancestry (Code s None) = [Code s None]"
| "ancestry (Code s (Some parent)) = Code s (Some parent) # ancestry parent"

text \<open>
  The lookup as the specification words it: the value of the first code of the ancestry
  that has one.
\<close>

definition nearestMetaData :: "'v MetaData \<Rightarrow> Code \<Rightarrow> 'v option" where
  "nearestMetaData metaData code' =
     Option.bind (List.find (\<lambda>a. MetaData_index metaData (codeStr a) \<noteq> None) (ancestry code'))
       (\<lambda>a. MetaData_index metaData (codeStr a))"

section \<open>Errors\<close>

text \<open>
  A Go \<^verbatim>\<open>error\<close> is an interface value; what the sources observe of one is whether it is
  nil, whether it satisfies \<^verbatim>\<open>ErrorCode\<close> (it has a \<^verbatim>\<open>Code()\<close> method), whether it satisfies
  \<^verbatim>\<open>HasClientData\<close>, and what \<^verbatim>\<open>Error()\<close>, \<^verbatim>\<open>Code()\<close> and \<^verbatim>\<open>GetClientData()\<close> return. The
  non-nil error values are:
  \<^item> \<open>PlainErr msg\<close>: an error of a type without a \<^verbatim>\<open>Code()\<close> method (\<^verbatim>\<open>fmt.Errorf\<close>,
    \<^verbatim>\<open>errors.New\<close>), whose \<^verbatim>\<open>Error()\<close> returns \<open>msg\<close>;
  \<^item> \<open>UserErr msg c d\<close>: an error of any other type that satisfies \<^verbatim>\<open>ErrorCode\<close> (a
    program's own struct such as \<^verbatim>\<open>PathBlocked\<close> or \<^verbatim>\<open>GRPCError\<close>, or one of the package's
    stack-capturing, operation-annotated and aggregate errors, whose methods are not part
    of the sources at hand), given by what its methods return: \<^verbatim>\<open>Error()\<close> is \<open>msg\<close>,
    \<^verbatim>\<open>Code()\<close> is \<open>c\<close>, and \<open>d\<close> is \<open>Some x\<close> when the type has a \<^verbatim>\<open>GetClientData()\<close> method,
    which returns \<open>x\<close>, and \<open>None\<close> when it has none;
  \<^item> a \<^verbatim>\<open>CodedError\<close>, or one of the four structs that embed it and so have its methods.
  A nil \<^verbatim>\<open>error\<close> is \<open>None\<close> of \<open>'d error option\<close>. The type \<open>'d\<close> is the type of the payloads
  that the programs' own \<^verbatim>\<open>GetClientData()\<close> methods return.
\<close>

datatype 'd error =
    PlainErr string
  | UserErr string Code "'d option"
  | CodedErr "'d CodedError"
  | invalidInputErr "'d CodedError"
  | notFoundErr "'d CodedError"
  | notAuthenticatedErr "'d CodedError"
  | forbiddenErr "'d CodedError"
and 'd CodedError = CodedError (GetCode: Code) (Err: "'d error option")

text \<open>
  The type assertion \<^verbatim>\<open>errcode, ok := err.(ErrorCode)\<close> followed by \<^verbatim>\<open>errcode.Code()\<close>:
  \<open>None\<close> when \<^verbatim>\<open>ok\<close> is false. \<^verbatim>\<open>func (e CodedError) Code() Code\<close> returns the \<^verbatim>\<open>GetCode\<close>
  field, also for the structs that embed a \<^verbatim>\<open>CodedError\<close>.
\<close>

definition CodedError_Code :: "'d CodedError \<Rightarrow> Code" where
  "CodedError_Code e = GetCode e"

fun asErrorCode :: "'d error \<Rightarrow> Code option" where
  "asErrorCode (PlainErr msg) = None"
| "asErrorCode (UserErr msg c d) = Some c"
| "asErrorCode (CodedErr e) = Some (CodedError_Code e)"
| "asErrorCode (invalidInputErr e) = Some (CodedError_Code e)"
| "asErrorCode (notFoundErr e) = Some (CodedError_Code e)"
| "asErrorCode (notAuthenticatedErr e) = Some (CodedError_Code e)"
| "asErrorCode (forbiddenErr e) = Some (CodedError_Code e)"

text \<open>
  \<^verbatim>\<open>err.Error()\<close>, and \<^verbatim>\<open>func (e CodedError) Error() string { return e.Err.Error() }\<close>. A
  \<^verbatim>\<open>CodedError\<close> whose \<^verbatim>\<open>Err\<close> field is nil calls a method of a nil interface, which is a
  run-time panic.
\<close>

fun Error :: "'d error \<Rightarrow> panic + string"
  and CodedError_Error :: "'d CodedError \<Rightarrow> panic + string" where
  "Error (PlainErr msg) = Inr msg"
| "Error (UserErr msg c d) = Inr msg"
| "Error (CodedErr e) = CodedError_Error e"
| "Error (invalidInputErr e) = CodedError_Error e"
| "Error (notFoundErr e) = CodedError_Error e"
| "Error (notAuthenticatedErr e) = CodedError_Error e"
| "Error (forbiddenErr e) = CodedError_Error e"
| "CodedError_Error (CodedError c None) = Inl NilDereference"
| "CodedError_Error (CodedError c (Some err)) = Error err"

text \<open>\<^verbatim>\<open>func (e CodedError) Cause() error { return e.Err }\<close>\<close>

definition CodedError_Cause :: "'d CodedError \<Rightarrow> 'd error option" where
  "CodedError_Cause e = Err e"

text \<open>
  The values of \<^verbatim>\<open>interface{}\<close> that client data can be: nil (\<open>NilValue\<close>), a payload of a program's own
  \<^verbatim>\<open>GetClientData()\<close>, or an error value itself.
\<close>

datatype 'd any = NilValue | Data 'd | ErrVal "'d error"

text \<open>
  Modelled from the spec: \<^verbatim>\<open>ClientData(errCode ErrorCode) interface{}\<close>, whose source is
  absent: "if \<^verbatim>\<open>errCode\<close> satisfies HasClientData, returns that; otherwise returns \<^verbatim>\<open>errCode\<close>
  itself". The sources assert that the structs embedding \<^verbatim>\<open>CodedError\<close> satisfy
  \<^verbatim>\<open>HasClientData\<close>, through its method:
  \<^verbatim>\<open>
  func (e CodedError) GetClientData() interface{} {
      if errCode, ok := e.Err.(ErrorCode); ok {
          return ClientData(errCode)
      }
      return e.Err
  }
  \<close>
  The assertion on a nil \<^verbatim>\<open>e.Err\<close> fails, so the nil value is returned.
\<close>

fun ClientData :: "'d error \<Rightarrow> 'd any"
  and CodedError_GetClientData :: "'d CodedError \<Rightarrow> 'd any" where
  "ClientData (PlainErr msg) = ErrVal (PlainErr msg)"
| "ClientData (UserErr msg c None) = ErrVal (UserErr msg c None)"
| "ClientData (UserErr msg c (Some x)) = Data x"
| "ClientData (CodedErr e) = CodedError_GetClientData e"
| "ClientData (invalidInputErr e) = CodedError_GetClientData e"
| "ClientData (notFoundErr e) = CodedError_GetClientData e"
| "ClientData (notAuthenticatedErr e) = CodedError_GetClientData e"
| "ClientData (forbiddenErr e) = CodedError_GetClientData e"
| "CodedError_GetClientData (CodedError c None) = NilValue"
| "CodedError_GetClientData (CodedError c (Some err)) =
     (case asErrorCode err of
        Some errCode \<Rightarrow> ClientData err
      | None \<Rightarrow> ErrVal err)"

text \<open>
  \<^verbatim>\<open>func NewCodedError(err error, code Code) CodedError\<close>
\<close>

definition NewCodedError :: "'d error option \<Rightarrow> Code \<Rightarrow> panic + 'd CodedError" where
  "NewCodedError err code' =
     (case err of
        None \<Rightarrow> Inl (PanicStr ''NewCodedError error is nil'')
      | Some e \<Rightarrow>
          Inr (CodedError
                 (case asErrorCode e of Some errcode \<Rightarrow> errcode | None \<Rightarrow> code')
                 err))"

section \<open>The registry of codes and the built-in codes\<close>

text \<open>
  Modelled from the spec: \<^verbatim>\<open>NewCode\<close> and \<^verbatim>\<open>Child\<close>, whose source is absent. "\<^verbatim>\<open>NewCode(str)\<close>
  creates a root code. Fails (panics/fatally errors) if \<^verbatim>\<open>str\<close> is already registered";
  "\<^verbatim>\<open>Child(str)\<close> creates a new code whose parent is the receiver, registers \<^verbatim>\<open>str\<close>. Same
  uniqueness rule". The registry is the process-wide set of the identifiers in use, here
  an explicit argument and result.
\<close>

type_synonym registry = "CodeStr set"

definition NewCode :: "CodeStr \<Rightarrow> registry \<Rightarrow> panic + (Code \<times> registry)" where
  "NewCode str reg =
     (if str \<in> reg then Inl (CodeExists str)
      else Inr (Code str None, insert str reg))"

definition Child :: "Code \<Rightarrow> CodeStr \<Rightarrow> registry \<Rightarrow> panic + (Code \<times> registry)" where
  "Child code' childStr reg =
     (if childStr \<in> reg then Inl (CodeExists childStr)
      else Inr (Code childStr (Some code'), insert childStr reg))"

text \<open>
  The creations of codes that a process performs, one after the other on the same
  registry; a panic ends the process.
\<close>

datatype creation = NewRoot CodeStr | NewChild Code CodeStr

fun create :: "creation \<Rightarrow> registry \<Rightarrow> panic + (Code \<times> registry)" where
  "create (NewRoot str) reg = NewCode str reg"
| "create (NewChild parent str) reg = Child parent str reg"

fun createAll :: "creation list \<Rightarrow> registry \<Rightarrow> panic + (Code list \<times> registry)" where
  "createAll [] reg = Inr ([], reg)"
| "createAll (r # rs) reg =
     (case create r reg of
        Inl p \<Rightarrow> Inl p
      | Inr (c, reg') \<Rightarrow>
          (case createAll rs reg' of
             Inl p \<Rightarrow> Inl p
           | Inr (cs, reg'') \<Rightarrow> Inr (c # cs, reg'')))"

text \<open>
  Modelled from the spec: \<^verbatim>\<open>(Code) IsAncestor(other Code) bool\<close>, whose source is absent:
  "true if \<^verbatim>\<open>other\<close> is \<^verbatim>\<open>code\<close> itself or any ancestor of \<^verbatim>\<open>code\<close>", by "a simple upward
  walk". Two codes are the same when their identifiers and their parents are.
\<close>

fun IsAncestor :: "Code \<Rightarrow> Code \<Rightarrow> bool" where
  "IsAncestor (Code s p) other =
     (if Code s p = other then True
      else (case p of None \<Rightarrow> False | Some parent \<Rightarrow> IsAncestor parent other))"

text \<open>
  The package-level codes, as their \<^verbatim>\<open>var\<close> declarations create them, for example
  \<^verbatim>\<open>InternalCode = NewCode("internal").SetHTTP(http.StatusInternalServerError)\<close> and
  \<^verbatim>\<open>UnimplementedCode = InternalCode.Child("internal.unimplemented").SetHTTP(http.StatusNotImplemented)\<close>.
\<close>

definition InternalCode :: Code where
  "InternalCode = Code ''internal'' None"

definition NotFoundCode :: Code where
  "NotFoundCode = Code ''missing'' None"

definition UnimplementedCode :: Code where
  "UnimplementedCode = Code ''internal.unimplemented'' (Some InternalCode)"

definition StateCode :: Code where
  "StateCode = Code ''state'' None"

definition AlreadyExistsCode :: Code where
  "AlreadyExistsCode = Code ''state.exists'' (Some StateCode)"

definition OutOfRangeCode :: Code where
  "OutOfRangeCode = Code ''state.range'' (Some StateCode)"

definition InvalidInputCode :: Code where
  "InvalidInputCode = Code ''input'' None"

definition AuthCode :: Code where
  "AuthCode = Code ''auth'' None"

definition NotAuthenticatedCode :: Code where
  "NotAuthenticatedCode = Code ''auth.unauthenticated'' (Some AuthCode)"

definition ForbiddenCode :: Code where
  "ForbiddenCode = Code ''auth.forbidden'' (Some AuthCode)"

text \<open>
  The HTTP store, \<^verbatim>\<open>var httpMetaData = make(MetaData)\<close>, once the declarations above have
  run: the \<^verbatim>\<open>SetHTTP\<close> calls, in their order. \<^verbatim>\<open>OutOfRangeCode\<close> and \<^verbatim>\<open>AuthCode\<close> set nothing.
\<close>

definition httpMetaData :: "int MetaData" where
  "httpMetaData =
     MetaData
       [''internal'' \<mapsto> 500, ''missing'' \<mapsto> 404, ''internal.unimplemented'' \<mapsto> 501,
        ''state'' \<mapsto> 400, ''state.exists'' \<mapsto> 409, ''input'' \<mapsto> 400,
        ''auth.unauthenticated'' \<mapsto> 401, ''auth.forbidden'' \<mapsto> 403]"

text \<open>
  The \<^verbatim>\<open>var\<close> block that creates them, as a run: each variable is created by \<^verbatim>\<open>NewCode\<close>, or by
  \<^verbatim>\<open>Child\<close> of its parent, and then given an HTTP code by \<^verbatim>\<open>SetHTTP\<close> where the source calls
  it. The run starts from the empty registry and the empty HTTP store that \<^verbatim>\<open>make\<close> returns
  and stops at the first panic.
\<close>

datatype packageVar = PackageVar "Code option" CodeStr "int option"

fun initVar ::
    "packageVar \<Rightarrow> registry \<times> int MetaData \<Rightarrow> panic + (Code \<times> registry \<times> int MetaData)" where
  "initVar (PackageVar parent str http) (reg, md) =
     (case (case parent of None \<Rightarrow> NewCode str reg | Some p \<Rightarrow> Child p str reg) of
        Inl p \<Rightarrow> Inl p
      | Inr (c, reg') \<Rightarrow>
          (case http of
             None \<Rightarrow> Inr (c, reg', md)
           | Some httpCode \<Rightarrow>
               (case SetHTTP c httpCode md of
                  Inl p \<Rightarrow> Inl p
                | Inr (c', md') \<Rightarrow> Inr (c', reg', md'))))"

fun initVars ::
    "packageVar list \<Rightarrow> registry \<times> int MetaData \<Rightarrow> panic + (Code list \<times> registry \<times> int MetaData)" where
  "initVars [] st = Inr ([], st)"
| "initVars (d # ds) st =
     (case initVar d st of
        Inl p \<Rightarrow> Inl p
      | Inr (c, st') \<Rightarrow>
          (case initVars ds st' of
             Inl p \<Rightarrow> Inl p
           | Inr (cs, st'') \<Rightarrow> Inr (c # cs, st'')))"

definition package_vars :: "packageVar list" where
  "package_vars =
     [PackageVar None ''internal'' (Some 500),
      PackageVar None ''missing'' (Some 404),
      PackageVar (Some InternalCode) ''internal.unimplemented'' (Some 501),
      PackageVar None ''state'' (Some 400),
      PackageVar (Some StateCode) ''state.exists'' (Some 409),
      PackageVar (Some StateCode) ''state.range'' None,
      PackageVar None ''input'' (Some 400),
      PackageVar None ''auth'' None,
      PackageVar (Some AuthCode) ''auth.unauthenticated'' (Some 401),
      PackageVar (Some AuthCode) ''auth.forbidden'' (Some 403)]"

text \<open>
  The constructors pinned to one default code, for example
  \<^verbatim>\<open>func NewInvalidInputErr(err error) ErrorCode { return invalidInputErr{NewCodedError(err, InvalidInputCode)} }\<close>.
\<close>

definition NewInvalidInputErr :: "'d error option \<Rightarrow> panic + 'd error" where
  "NewInvalidInputErr err = map_sum id invalidInputErr (NewCodedError err InvalidInputCode)"

definition NewNotFoundErr :: "'d error option \<Rightarrow> panic + 'd error" where
  "NewNotFoundErr err = map_sum id notFoundErr (NewCodedError err NotFoundCode)"

definition NewNotAuthenticatedErr :: "'d error option \<Rightarrow> panic + 'd error" where
  "NewNotAuthenticatedErr err =
     map_sum id notAuthenticatedErr (NewCodedError err NotAuthenticatedCode)"

definition NewForbiddenErr :: "'d error option \<Rightarrow> panic + 'd error" where
  "NewForbiddenErr err = map_sum id forbiddenErr (NewCodedError err ForbiddenCode)"

section \<open>Internal errors with a stack trace\<close>

text \<open>
  Modelled from the spec: \<^verbatim>\<open>StackCode\<close>, \<^verbatim>\<open>NewStackCode\<close> and \<^verbatim>\<open>StackCode.Code()\<close>, whose source
  is absent: "a stack-capturing variant for the internal family", an \<^verbatim>\<open>ErrorCode\<close> that keeps
  the code of the \<^verbatim>\<open>ErrorCode\<close> it wraps (the spec's internal promotion reads the code chosen
  by the constructor off the result). Its only call in the sources passes a \<^verbatim>\<open>CodedError\<close>
  and the stack position 3; the captured trace itself is outside the model.
\<close>

datatype 'd StackCode = StackCode (StackCode_Err: "'d CodedError") (stackPosition: nat)

definition NewStackCode :: "'d CodedError \<Rightarrow> nat \<Rightarrow> 'd StackCode" where
  "NewStackCode err position = StackCode err position"

definition StackCode_Code :: "'d StackCode \<Rightarrow> Code" where
  "StackCode_Code e = CodedError_Code (StackCode_Err e)"

text \<open>
  \<^verbatim>\<open>type internalErr struct{ StackCode }\<close> and \<^verbatim>\<open>type unimplementedErr struct{ StackCode }\<close>:
  the values \<^verbatim>\<open>NewInternalErr\<close> and \<^verbatim>\<open>NewUnimplementedErr\<close> return as an \<^verbatim>\<open>ErrorCode\<close>. Their
  \<^verbatim>\<open>Code()\<close> is the embedded struct's.
\<close>

datatype 'd stackErrorCode = internalErr "'d StackCode" | unimplementedErr "'d StackCode"

fun stackErrorCode_Code :: "'d stackErrorCode \<Rightarrow> Code" where
  "stackErrorCode_Code (internalErr e) = StackCode_Code e"
| "stackErrorCode_Code (unimplementedErr e) = StackCode_Code e"

text \<open>
  \<^verbatim>\<open>func makeInternalStackCode(defaultCode Code) func(error) StackCode\<close>: the check of the
  default code runs when the function is built, the rest when it is called.
\<close>

definition makeInternalStackCode ::
    "Code \<Rightarrow> panic + ('d error option \<Rightarrow> panic + 'd StackCode)" where
  "makeInternalStackCode defaultCode =
     (if \<not> IsAncestor defaultCode InternalCode then Inl (NotInternalCode defaultCode)
      else Inr (\<lambda>err.
        case err of
          None \<Rightarrow> Inl (PanicStr ''makeInternalStackCode error is nil'')
        | Some e \<Rightarrow>
            Inr (NewStackCode
                   (CodedError
                      (case asErrorCode e of
                         Some errCode \<Rightarrow>
                           if IsAncestor errCode InternalCode then errCode else defaultCode
                       | None \<Rightarrow> defaultCode)
                      err)
                   3)))"

text \<open>
  \<^verbatim>\<open>var internalStackCode = makeInternalStackCode(InternalCode)\<close> and
  \<^verbatim>\<open>func NewInternalErr(err error) ErrorCode { return internalErr{internalStackCode(err)} }\<close>;
  the same with \<^verbatim>\<open>UnimplementedCode\<close> for \<^verbatim>\<open>NewUnimplementedErr\<close>. A panic of either stage is
  the panic of the whole.
\<close>

definition NewInternalErr :: "'d error option \<Rightarrow> panic + 'd stackErrorCode" where
  "NewInternalErr err =
     (case makeInternalStackCode InternalCode of
        Inl p \<Rightarrow> Inl p
      | Inr internalStackCode \<Rightarrow>
          (case internalStackCode err of
             Inl p \<Rightarrow> Inl p
           | Inr e \<Rightarrow> Inr (internalErr e)))"

definition NewUnimplementedErr :: "'d error option \<Rightarrow> panic + 'd stackErrorCode" where
  "NewUnimplementedErr err =
     (case makeInternalStackCode UnimplementedCode of
        Inl p \<Rightarrow> Inl p
      | Inr unimplementedStackCode \<Rightarrow>
          (case unimplementedStackCode err of
             Inl p \<Rightarrow> Inl p
           | Inr e \<Rightarrow> Inr (unimplementedErr e)))"

section \<open>Aggregation\<close>

text \<open>
  Modelled from the spec: \<^verbatim>\<open>Combine\<close> and the aggregate it returns, whose source is absent.
  The aggregate "satisfies ErrorCode, reporting the code of its first constituent that has
  one: first-in-argument-order wins"; it has "an \<^verbatim>\<open>Errors()\<close> capability exposing the full
  ordered list of original errors"; and "if none of the inputs satisfy ErrorCode, the
  aggregate falls back to a generic/internal classification rather than failing".
\<close>

datatype 'd MultiErrCode = MultiErrCode (constituents: "'d error list")

definition Combine :: "'d error list \<Rightarrow> 'd MultiErrCode" where
  "Combine errs = MultiErrCode errs"

definition MultiErrCode_Code :: "'d MultiErrCode \<Rightarrow> Code" where
  "MultiErrCode_Code e =
     (case List.map_filter asErrorCode (constituents e) of
        [] \<Rightarrow> InternalCode
      | c # _ \<Rightarrow> c)"

definition MultiErrCode_Errors :: "'d MultiErrCode \<Rightarrow> 'd error list" where
  "MultiErrCode_Errors e = constituents e"

section \<open>Metadata lookup\<close>

lemma MetaDataFromAncestors_nearest:
  "MetaDataFromAncestors c metaData = nearestMetaData metaData c"
proof (induction c metaData rule: MetaDataFromAncestors.induct)
  case (1 s p metaData)
  show ?case
  proof (cases "MetaData_index metaData s")
    case (Some v)
    then show ?thesis
      by (cases p) (simp_all add: nearestMetaData_def)
  next
    case None
    note absent = this
    show ?thesis
    proof (cases p)
      case None
      with absent show ?thesis by (simp add: nearestMetaData_def)
    next
      case (Some parent)
      with absent "1.IH" [of parent] show ?thesis
        by (simp add: nearestMetaData_def)
    qed
  qed
qed

lemma MetaDataFromAncestors_own:
  "MetaData_index metaData (codeStr c) = Some v \<Longrightarrow> MetaDataFromAncestors c metaData = Some v"
  by (cases c) simp

lemma MetaDataFromAncestors_parent:
  "MetaData_index metaData (codeStr c) = None \<Longrightarrow> Parent c = Some p \<Longrightarrow>
   MetaDataFromAncestors c metaData = MetaDataFromAncestors p metaData"
  by (cases c) simp

lemma MetaDataFromAncestors_none:
  "(\<forall>a \<in> set (ancestry c). MetaData_index metaData (codeStr a) = None) \<Longrightarrow>
   MetaDataFromAncestors c metaData = None"
  by (induction c metaData rule: MetaDataFromAncestors.induct)
     (auto split: option.splits)

section \<open>The internal family\<close>

lemma IsAncestor_refl: "IsAncestor c c"
  by (cases c) simp

lemma IsAncestor_ancestry: "IsAncestor c other = (other \<in> set (ancestry c))"
proof (induction c other rule: IsAncestor.induct)
  case (1 s p other)
  then show ?case by (cases p) auto
qed

lemma Internal_in_family: "IsAncestor InternalCode InternalCode"
  by (rule IsAncestor_refl)

lemma Unimplemented_in_family: "IsAncestor UnimplementedCode InternalCode"
  by (simp add: UnimplementedCode_def InternalCode_def)

lemma NotFound_outside_family: "\<not> IsAncestor NotFoundCode InternalCode"
  by (simp add: NotFoundCode_def InternalCode_def)

lemma makeInternalStackCode_Inr:
  "makeInternalStackCode d = Inr f \<Longrightarrow>
   IsAncestor d InternalCode \<and>
   f None = Inl (PanicStr ''makeInternalStackCode error is nil'') \<and>
   f (Some e) =
     Inr (StackCode
            (CodedError
               (case asErrorCode e of
                  Some errCode \<Rightarrow> if IsAncestor errCode InternalCode then errCode else d
                | None \<Rightarrow> d)
               (Some e))
            3)"
  by (auto simp: makeInternalStackCode_def NewStackCode_def split: if_splits)

lemma makeInternalStackCode_family:
  assumes "makeInternalStackCode d = Inr f" "f err = Inr s"
  shows "IsAncestor d InternalCode \<and> IsAncestor (StackCode_Code s) InternalCode"
proof (cases err)
  case None
  with assms makeInternalStackCode_Inr [OF assms(1)] show ?thesis by simp
next
  case (Some e)
  with assms makeInternalStackCode_Inr [OF assms(1), of e] show ?thesis
    by (auto simp: StackCode_Code_def CodedError_Code_def split: option.splits)
qed

lemma NewInternalErr_Some:
  "NewInternalErr (Some e) =
     Inr (internalErr (StackCode
            (CodedError
               (case asErrorCode e of
                  Some errCode \<Rightarrow> if IsAncestor errCode InternalCode then errCode else InternalCode
                | None \<Rightarrow> InternalCode)
               (Some e))
            3))"
  by (simp add: NewInternalErr_def makeInternalStackCode_def NewStackCode_def Internal_in_family)

lemma NewUnimplementedErr_Some:
  "NewUnimplementedErr (Some e) =
     Inr (unimplementedErr (StackCode
            (CodedError
               (case asErrorCode e of
                  Some errCode \<Rightarrow>
                    if IsAncestor errCode InternalCode then errCode else UnimplementedCode
                | None \<Rightarrow> UnimplementedCode)
               (Some e))
            3))"
  by (simp add: NewUnimplementedErr_def makeInternalStackCode_def NewStackCode_def
      Unimplemented_in_family)

lemma NewInternalErr_None:
  "NewInternalErr None = Inl (PanicStr ''makeInternalStackCode error is nil'')"
  by (simp add: NewInternalErr_def makeInternalStackCode_def Internal_in_family)

lemma NewUnimplementedErr_None:
  "NewUnimplementedErr None = Inl (PanicStr ''makeInternalStackCode error is nil'')"
  by (simp add: NewUnimplementedErr_def makeInternalStackCode_def Unimplemented_in_family)

section \<open>Registration of codes\<close>

lemma package_vars_run:
  "initVars package_vars ({}, MetaData Map.empty) =
     Inr ([InternalCode, NotFoundCode, UnimplementedCode, StateCode, AlreadyExistsCode,
           OutOfRangeCode, InvalidInputCode, AuthCode, NotAuthenticatedCode, ForbiddenCode],
          {''auth.forbidden'', ''auth.unauthenticated'', ''auth'', ''input'', ''state.range'',
           ''state.exists'', ''state'', ''internal.unimplemented'', ''missing'', ''internal''},
          httpMetaData)"
  by (simp add: package_vars_def NewCode_def Child_def SetHTTP_def SetMetaData_def
      InternalCode_def NotFoundCode_def UnimplementedCode_def StateCode_def
      AlreadyExistsCode_def OutOfRangeCode_def InvalidInputCode_def AuthCode_def
      NotAuthenticatedCode_def ForbiddenCode_def httpMetaData_def)

lemma create_fresh:
  "create r reg = Inr (c, reg') \<Longrightarrow> codeStr c \<notin> reg \<and> reg' = insert (codeStr c) reg"
  by (cases r) (auto simp: NewCode_def Child_def split: if_splits)

lemma createAll_distinct:
  "createAll rs reg = Inr (cs, reg') \<Longrightarrow>
   distinct (map codeStr cs) \<and> set (map codeStr cs) \<inter> reg = {}
   \<and> reg' = reg \<union> set (map codeStr cs)"
proof (induction rs arbitrary: reg cs reg')
  case Nil
  then show ?case by simp
next
  case (Cons r rs)
  from Cons.prems obtain c reg1 cs1 where
    step: "create r reg = Inr (c, reg1)" and
    rest: "createAll rs reg1 = Inr (cs1, reg')" and
    cs: "cs = c # cs1"
    by (auto split: sum.splits prod.splits)
  from create_fresh [OF step] have fresh: "codeStr c \<notin> reg" and reg1: "reg1 = insert (codeStr c) reg"
    by simp_all
  from Cons.IH [OF rest] have ih: "distinct (map codeStr cs1)"
    "set (map codeStr cs1) \<inter> reg1 = {}" "reg' = reg1 \<union> set (map codeStr cs1)"
    by simp_all
  from fresh reg1 ih cs show ?case by auto
qed

section \<open>The first code of a list of errors\<close>

lemma map_filter_all_None:
  "(\<forall>x \<in> set xs. f x = None) \<Longrightarrow> List.map_filter f xs = []"
  by (induction xs) simp_all

lemma map_filter_first:
  "(\<forall>x \<in> set pre. f x = None) \<Longrightarrow> f e = Some c \<Longrightarrow>
   List.map_filter f (pre @ e # post) = c # List.map_filter f post"
  by (induction pre) simp_all

section \<open>The claims of the specification\<close>

text \<open>
  Claim C1. For every non-nil error \<open>err\<close> and code \<open>D\<close>, \<^verbatim>\<open>NewCodedError(err, D)\<close> returns a
  \<^verbatim>\<open>CodedError\<close> whose \<^verbatim>\<open>Code()\<close> is \<open>err\<close>'s own code \<open>E\<close> when \<open>err\<close> satisfies \<^verbatim>\<open>ErrorCode\<close>, and
  \<open>D\<close> when it does not; the error stored in the result is \<open>err\<close> itself.
\<close>

theorem NewCodedError_code:
  "(asErrorCode err = Some E \<longrightarrow>
      (\<exists>r. NewCodedError (Some err) D = Inr r \<and> CodedError_Code r = E \<and> Err r = Some err))
   \<and> (asErrorCode err = None \<longrightarrow>
      (\<exists>r. NewCodedError (Some err) D = Inr r \<and> CodedError_Code r = D \<and> Err r = Some err))"
  by (simp add: NewCodedError_def CodedError_Code_def)

theorem NewCodedError_code_witness:
  "asErrorCode (UserErr ''no such row'' NotFoundCode (None :: unit option)) = Some NotFoundCode
   \<and> NewCodedError (Some (UserErr ''no such row'' NotFoundCode (None :: unit option))) InvalidInputCode
       = Inr (CodedError NotFoundCode (Some (UserErr ''no such row'' NotFoundCode None)))
   \<and> asErrorCode (PlainErr ''bad digit'' :: unit error) = None
   \<and> NewCodedError (Some (PlainErr ''bad digit'' :: unit error)) InvalidInputCode
       = Inr (CodedError InvalidInputCode (Some (PlainErr ''bad digit'')))"
  using NewCodedError_code [of "UserErr ''no such row'' NotFoundCode (None :: unit option)"
      NotFoundCode InvalidInputCode]
    NewCodedError_code [of "PlainErr ''bad digit'' :: unit error" NotFoundCode InvalidInputCode]
  by (auto simp: CodedError_Code_def NewCodedError_def)

text \<open>
  Claim C2. For every non-nil error \<open>err\<close>, \<^verbatim>\<open>NewInternalErr(err)\<close> and
  \<^verbatim>\<open>NewUnimplementedErr(err)\<close> return an error whose \<^verbatim>\<open>Code()\<close> is \<open>err\<close>'s own code \<open>E\<close> when \<open>err\<close>
  satisfies \<^verbatim>\<open>ErrorCode\<close> and \<open>E\<close> is in the internal family, which the code decides by
  \<^verbatim>\<open>E.IsAncestor(InternalCode)\<close> (\<open>E\<close> is \<^verbatim>\<open>InternalCode\<close> or one of its descendants). In every
  other case, \<open>err\<close> without a code or with a code outside the family, the code of the result
  is the fixed default: \<^verbatim>\<open>InternalCode\<close> for the first, \<^verbatim>\<open>UnimplementedCode\<close> for the second.
\<close>

theorem NewInternalErr_code:
  "(asErrorCode err = Some E \<and> IsAncestor E InternalCode \<longrightarrow>
      (\<exists>r. NewInternalErr (Some err) = Inr r \<and> stackErrorCode_Code r = E)
      \<and> (\<exists>r. NewUnimplementedErr (Some err) = Inr r \<and> stackErrorCode_Code r = E))
   \<and> (asErrorCode err = Some E \<and> \<not> IsAncestor E InternalCode \<longrightarrow>
      (\<exists>r. NewInternalErr (Some err) = Inr r \<and> stackErrorCode_Code r = InternalCode)
      \<and> (\<exists>r. NewUnimplementedErr (Some err) = Inr r \<and> stackErrorCode_Code r = UnimplementedCode))
   \<and> (asErrorCode err = None \<longrightarrow>
      (\<exists>r. NewInternalErr (Some err) = Inr r \<and> stackErrorCode_Code r = InternalCode)
      \<and> (\<exists>r. NewUnimplementedErr (Some err) = Inr r \<and> stackErrorCode_Code r = UnimplementedCode))"
  by (simp add: NewInternalErr_Some NewUnimplementedErr_Some StackCode_Code_def
      CodedError_Code_def)

theorem NewInternalErr_code_witness:
  "asErrorCode (UserErr ''todo'' UnimplementedCode (None :: unit option)) = Some UnimplementedCode
   \<and> IsAncestor UnimplementedCode InternalCode
   \<and> map_sum id stackErrorCode_Code
        (NewInternalErr (Some (UserErr ''todo'' UnimplementedCode (None :: unit option))))
       = Inr UnimplementedCode
   \<and> map_sum id stackErrorCode_Code
        (NewUnimplementedErr (Some (UserErr ''todo'' UnimplementedCode (None :: unit option))))
       = Inr UnimplementedCode
   \<and> asErrorCode (notFoundErr (CodedError NotFoundCode (Some (PlainErr ''gone''))) :: unit error)
       = Some NotFoundCode
   \<and> \<not> IsAncestor NotFoundCode InternalCode
   \<and> map_sum id stackErrorCode_Code
        (NewInternalErr (Some (notFoundErr (CodedError NotFoundCode (Some (PlainErr ''gone'')))
           :: unit error)))
       = Inr InternalCode
   \<and> map_sum id stackErrorCode_Code
        (NewUnimplementedErr (Some (notFoundErr (CodedError NotFoundCode (Some (PlainErr ''gone'')))
           :: unit error)))
       = Inr UnimplementedCode
   \<and> asErrorCode (PlainErr ''wrap me up'' :: unit error) = None
   \<and> map_sum id stackErrorCode_Code (NewInternalErr (Some (PlainErr ''wrap me up'' :: unit error)))
       = Inr InternalCode
   \<and> map_sum id stackErrorCode_Code
        (NewUnimplementedErr (Some (PlainErr ''wrap me up'' :: unit error)))
       = Inr UnimplementedCode"
  using NewInternalErr_code
      [of "UserErr ''todo'' UnimplementedCode (None :: unit option)" UnimplementedCode]
    NewInternalErr_code
      [of "notFoundErr (CodedError NotFoundCode (Some (PlainErr ''gone''))) :: unit error"
        NotFoundCode]
    NewInternalErr_code [of "PlainErr ''wrap me up'' :: unit error" InternalCode]
  by (auto simp: Unimplemented_in_family NotFound_outside_family CodedError_Code_def)

text \<open>
  Claim C3. For every code \<open>c\<close> and HTTP store \<open>md\<close>, \<^verbatim>\<open>c.HTTPCode()\<close> is the value stored for
  the first code that has one among \<open>c\<close> and its ancestors, nearest first, and 400 when none
  has: the value of \<open>c\<close> itself when it has one, and 400 when no code of the ancestry has
  one. So a code \<open>c\<close> with parent \<open>c1\<close>, as \<^verbatim>\<open>c1.Child(s)\<close> creates it, and with no HTTP value
  of its own has the HTTP code of \<open>c1\<close>.
\<close>

theorem HTTPCode_inherits:
  "HTTPCode md c = (case nearestMetaData md c of Some v \<Rightarrow> v | None \<Rightarrow> 400)
   \<and> (MetaData_index md (codeStr c) = Some v \<longrightarrow> HTTPCode md c = v)
   \<and> ((\<forall>a \<in> set (ancestry c). MetaData_index md (codeStr a) = None) \<longrightarrow> HTTPCode md c = 400)
   \<and> (Parent c = Some c1 \<and> MetaData_index md (codeStr c) = None \<longrightarrow> HTTPCode md c = HTTPCode md c1)
   \<and> (Child c1 s reg = Inr (c, reg') \<and> MetaData_index md (codeStr c) = None \<longrightarrow>
        HTTPCode md c = HTTPCode md c1)"
proof -
  have nearest: "HTTPCode md c = (case nearestMetaData md c of Some v \<Rightarrow> v | None \<Rightarrow> 400)"
    by (simp add: HTTPCode_def MetaDataFromAncestors_nearest)
  have own: "MetaData_index md (codeStr c) = Some v \<longrightarrow> HTTPCode md c = v"
    by (simp add: HTTPCode_def MetaDataFromAncestors_own)
  have dflt: "(\<forall>a \<in> set (ancestry c). MetaData_index md (codeStr a) = None) \<longrightarrow> HTTPCode md c = 400"
    by (simp add: HTTPCode_def MetaDataFromAncestors_none)
  have parent: "HTTPCode md c = HTTPCode md p"
    if "Parent c = Some p" "MetaData_index md (codeStr c) = None" for p
    using that by (simp add: HTTPCode_def MetaDataFromAncestors_parent)
  have child: "Parent c = Some c1" if "Child c1 s reg = Inr (c, reg')"
    using that by (auto simp: Child_def split: if_splits)
  from nearest own dflt parent child show ?thesis by blast
qed

theorem HTTPCode_inherits_witness:
  "Parent OutOfRangeCode = Some StateCode
   \<and> MetaData_index httpMetaData (codeStr OutOfRangeCode) = None
   \<and> HTTPCode httpMetaData OutOfRangeCode = HTTPCode httpMetaData StateCode
   \<and> HTTPCode httpMetaData OutOfRangeCode = 400
   \<and> Child StateCode ''state.range'' {''state''} = Inr (OutOfRangeCode, {''state.range'', ''state''})
   \<and> MetaData_index httpMetaData (codeStr UnimplementedCode) = Some 501
   \<and> HTTPCode httpMetaData UnimplementedCode = 501
   \<and> set (ancestry AuthCode) = {AuthCode}
   \<and> MetaData_index httpMetaData (codeStr AuthCode) = None
   \<and> HTTPCode httpMetaData AuthCode = 400"
  using HTTPCode_inherits [of httpMetaData OutOfRangeCode 400 StateCode "''state.range''"
      "{''state''}" "{''state.range'', ''state''}"]
    HTTPCode_inherits [of httpMetaData UnimplementedCode 501 InternalCode
      "''internal.unimplemented''" "{''internal''}" "{''internal.unimplemented'', ''internal''}"]
    HTTPCode_inherits [of httpMetaData AuthCode 400 AuthCode "''auth''" "{}" "{''auth''}"]
  by (simp add: httpMetaData_def OutOfRangeCode_def StateCode_def UnimplementedCode_def
      InternalCode_def AuthCode_def Child_def HTTPCode_def)

text \<open>
  Claim C4, as amended. For every code \<open>C\<close>, allocated (non-nil) store with entries \<open>m\<close> and
  value \<open>v\<close>: when the store has a value \<open>old\<close> for the identifier of \<open>C\<close>,
  \<^verbatim>\<open>C.SetMetaData(M, v)\<close> returns a conflict error that holds \<open>old\<close> and prints it in its
  message, and the store is unchanged; when the store has no value for the identifier, the
  call stores \<open>v\<close> under it, changes no other key, and returns nil. On a nil store, which has
  a value for no identifier, the call stores nothing and returns nothing: the assignment
  panics.
\<close>

theorem SetMetaData_conflict:
  "(m (codeStr C) = Some old \<longrightarrow>
      (\<exists>err. SetMetaData C (MetaData m) v = Inr (MetaData m, Some err)
         \<and> existingMetaData err = old \<and> ece_code err = C
         \<and> existingCodeError_Error fmtCode fmtValue err =
             ''for code '' @ fmtCode C @ '' metadata exists: '' @ fmtValue old))
   \<and> (m (codeStr C) = None \<longrightarrow>
        SetMetaData C (MetaData m) v = Inr (MetaData (m(codeStr C \<mapsto> v)), None)
        \<and> (\<exists>M'. SetMetaData C (MetaData m) v = Inr (M', None)
              \<and> MetaData_index M' (codeStr C) = Some v
              \<and> (k \<noteq> codeStr C \<longrightarrow> MetaData_index M' k = m k)))
   \<and> MetaData_index (NilMetaData :: 'v MetaData) (codeStr C) = None
   \<and> SetMetaData C NilMetaData v = Inl NilMapAssignment"
  by (simp add: SetMetaData_def existingCodeError_Error_def)

theorem SetMetaData_conflict_witness:
  "[''internal'' \<mapsto> 500] (codeStr InternalCode) = Some (500 :: int)
   \<and> SetMetaData InternalCode (MetaData [''internal'' \<mapsto> 500]) (503 :: int) =
       Inr (MetaData [''internal'' \<mapsto> 500],
            Some \<lparr>existingMetaData = 500, ece_code = InternalCode\<rparr>)
   \<and> existingCodeError_Error (\<lambda>c. codeStr c) (\<lambda>v. if v = 500 then ''500'' else ''?'')
         \<lparr>existingMetaData = 500 :: int, ece_code = InternalCode\<rparr>
       = ''for code internal metadata exists: 500''
   \<and> [''internal'' \<mapsto> 500 :: int] (codeStr AuthCode) = None
   \<and> SetMetaData AuthCode (MetaData [''internal'' \<mapsto> 500]) (401 :: int) =
       Inr (MetaData [''internal'' \<mapsto> 500, ''auth'' \<mapsto> 401], None)
   \<and> MetaData_index (MetaData [''internal'' \<mapsto> 500, ''auth'' \<mapsto> 401 :: int]) ''auth'' = Some 401
   \<and> MetaData_index (MetaData [''internal'' \<mapsto> 500, ''auth'' \<mapsto> 401 :: int]) ''internal''
       = Some 500"
  using SetMetaData_conflict [of "[''internal'' \<mapsto> 500 :: int]" InternalCode 500 503
      "\<lambda>c. codeStr c" "\<lambda>v. if v = 500 then ''500'' else ''?''" "''internal''"]
    SetMetaData_conflict [of "[''internal'' \<mapsto> 500 :: int]" AuthCode 500 401
      "\<lambda>c. codeStr c" "\<lambda>v. if v = 500 then ''500'' else ''?''" "''internal''"]
  by (auto simp: InternalCode_def AuthCode_def existingCodeError_Error_def)

text \<open>
  The claim as it was worded, for every store, fails on the nil store: it has no value for
  the identifier of \<^verbatim>\<open>InternalCode\<close>, and the call neither stores the value nor returns nil.
\<close>

theorem SetMetaData_nil_store_counterexample:
  "MetaData_index (NilMetaData :: int MetaData) (codeStr InternalCode) = None
   \<and> SetMetaData InternalCode (NilMetaData :: int MetaData) 500 = Inl NilMapAssignment
   \<and> SetMetaData InternalCode (NilMetaData :: int MetaData) 500
       \<noteq> Inr (MetaData [codeStr InternalCode \<mapsto> 500], None)"
  by (simp add: SetMetaData_def)

text \<open>
  Claim C5. Code identifiers are unique in a process: for an identifier \<open>s\<close> that is already
  registered, \<^verbatim>\<open>NewCode(s)\<close> and \<^verbatim>\<open>Child(s)\<close> on any code panic and create nothing; a creation
  that returns has used a fresh identifier, which it registers; and the codes that any
  sequence of creations from the empty registry returns have pairwise distinct identifiers,
  which are exactly the registered ones.
\<close>

theorem code_identifiers_unique:
  "(s \<in> reg \<longrightarrow> NewCode s reg = Inl (CodeExists s) \<and> Child c s reg = Inl (CodeExists s))
   \<and> (NewCode s reg = Inr (c', reg') \<longrightarrow>
        s \<notin> reg \<and> reg' = insert s reg \<and> c' = Code s None)
   \<and> (Child c s reg = Inr (c', reg') \<longrightarrow>
        s \<notin> reg \<and> reg' = insert s reg \<and> c' = Code s (Some c))
   \<and> (createAll rs {} = Inr (cs, reg') \<longrightarrow>
        distinct (map codeStr cs) \<and> set (map codeStr cs) = reg')"
proof -
  have "distinct (map codeStr cs) \<and> set (map codeStr cs) = reg'"
    if "createAll rs {} = Inr (cs, reg')"
    using createAll_distinct [OF that] by simp
  then show ?thesis
    by (auto simp: NewCode_def Child_def split: if_splits)
qed


theorem code_identifiers_unique_witness:
  "''internal'' \<in> {''internal'', ''missing''}
   \<and> NewCode ''internal'' {''internal'', ''missing''} = Inl (CodeExists ''internal'')
   \<and> Child NotFoundCode ''internal'' {''internal'', ''missing''} = Inl (CodeExists ''internal'')
   \<and> Child InternalCode ''internal.unimplemented'' {''internal'', ''missing''}
       = Inr (UnimplementedCode, {''internal.unimplemented'', ''internal'', ''missing''})
   \<and> ''internal.unimplemented'' \<notin> {''internal'', ''missing''}
   \<and> createAll [NewRoot ''internal'', NewRoot ''missing'',
         NewChild InternalCode ''internal.unimplemented''] {}
       = Inr ([InternalCode, NotFoundCode, UnimplementedCode],
              {''internal.unimplemented'', ''missing'', ''internal''})
   \<and> distinct (map codeStr [InternalCode, NotFoundCode, UnimplementedCode])
   \<and> createAll [NewRoot ''internal'', NewRoot ''missing'', NewRoot ''internal''] {}
       = Inl (CodeExists ''internal'')"
proof -
  have dup: "''internal'' \<in> {''internal'', ''missing''}"
    by simp
  have child: "Child InternalCode ''internal.unimplemented'' {''internal'', ''missing''}
      = Inr (UnimplementedCode, {''internal.unimplemented'', ''internal'', ''missing''})"
    by (simp add: Child_def UnimplementedCode_def)
  have run: "createAll [NewRoot ''internal'', NewRoot ''missing'',
        NewChild InternalCode ''internal.unimplemented''] {}
      = Inr ([InternalCode, NotFoundCode, UnimplementedCode],
             {''internal.unimplemented'', ''missing'', ''internal''})"
    by (simp add: NewCode_def Child_def InternalCode_def NotFoundCode_def UnimplementedCode_def)
  have stop: "createAll [NewRoot ''internal'', NewRoot ''missing'', NewRoot ''internal''] {}
      = Inl (CodeExists ''internal'')"
    by (simp add: NewCode_def)
  have refused: "NewCode ''internal'' {''internal'', ''missing''} = Inl (CodeExists ''internal'')
      \<and> Child NotFoundCode ''internal'' {''internal'', ''missing''} = Inl (CodeExists ''internal'')"
    by (rule code_identifiers_unique [THEN conjunct1, THEN mp, OF dup])
  have fresh: "''internal.unimplemented'' \<notin> {''internal'', ''missing''}
      \<and> {''internal.unimplemented'', ''internal'', ''missing''}
          = insert ''internal.unimplemented'' {''internal'', ''missing''}
      \<and> UnimplementedCode = Code ''internal.unimplemented'' (Some InternalCode)"
    by (rule code_identifiers_unique
        [THEN conjunct2, THEN conjunct2, THEN conjunct1, THEN mp, OF child])
  have unique: "distinct (map codeStr [InternalCode, NotFoundCode, UnimplementedCode])
      \<and> set (map codeStr [InternalCode, NotFoundCode, UnimplementedCode])
          = {''internal.unimplemented'', ''missing'', ''internal''}"
    by (rule code_identifiers_unique
        [THEN conjunct2, THEN conjunct2, THEN conjunct2, THEN mp, OF run])
  from dup refused child fresh run unique stop show ?thesis
    by simp
qed

text \<open>
  Claim C6. For every list of errors given to \<^verbatim>\<open>Combine\<close>: \<^verbatim>\<open>Errors()\<close> of the aggregate is the
  list of the arguments in their order; its \<^verbatim>\<open>Code()\<close> is the code of the first argument that
  satisfies \<^verbatim>\<open>ErrorCode\<close> (every argument before it has no code); and when no argument
  satisfies \<^verbatim>\<open>ErrorCode\<close>, its code is the internal code.
\<close>

theorem Combine_code:
  "MultiErrCode_Errors (Combine errs) = errs
   \<and> (errs = pre @ e # post \<and> (\<forall>x \<in> set pre. asErrorCode x = None) \<and> asErrorCode e = Some c
        \<longrightarrow> MultiErrCode_Code (Combine errs) = c)
   \<and> ((\<forall>x \<in> set errs. asErrorCode x = None) \<longrightarrow> MultiErrCode_Code (Combine errs) = InternalCode)"
  by (auto simp: MultiErrCode_Errors_def MultiErrCode_Code_def Combine_def
      map_filter_first map_filter_all_None)

theorem Combine_code_witness:
  "[PlainErr ''disk full'', UserErr ''no such row'' NotFoundCode (None :: unit option),
      UserErr ''bad digit'' InvalidInputCode None]
     = [PlainErr ''disk full''] @ UserErr ''no such row'' NotFoundCode None
         # [UserErr ''bad digit'' InvalidInputCode None]
   \<and> asErrorCode (PlainErr ''disk full'' :: unit error) = None
   \<and> asErrorCode (UserErr ''no such row'' NotFoundCode (None :: unit option)) = Some NotFoundCode
   \<and> MultiErrCode_Code (Combine [PlainErr ''disk full'',
        UserErr ''no such row'' NotFoundCode (None :: unit option),
        UserErr ''bad digit'' InvalidInputCode None]) = NotFoundCode
   \<and> MultiErrCode_Errors (Combine [PlainErr ''disk full'',
        UserErr ''no such row'' NotFoundCode (None :: unit option),
        UserErr ''bad digit'' InvalidInputCode None])
       = [PlainErr ''disk full'', UserErr ''no such row'' NotFoundCode None,
          UserErr ''bad digit'' InvalidInputCode None]
   \<and> MultiErrCode_Code (Combine [PlainErr ''disk full'' :: unit error, PlainErr ''timeout''])
       = InternalCode"
  using Combine_code [of "[PlainErr ''disk full'',
        UserErr ''no such row'' NotFoundCode (None :: unit option),
        UserErr ''bad digit'' InvalidInputCode None]" "[PlainErr ''disk full'']"
        "UserErr ''no such row'' NotFoundCode None" "[UserErr ''bad digit'' InvalidInputCode None]"
        NotFoundCode]
    Combine_code [of "[PlainErr ''disk full'' :: unit error, PlainErr ''timeout'']"]
  by simp

text \<open>
  Claim C7. For every \<^verbatim>\<open>CodedError\<close> \<open>e\<close>, \<^verbatim>\<open>e.GetClientData()\<close> is \<^verbatim>\<open>ClientData\<close> of the wrapped
  error when the wrapped error satisfies \<^verbatim>\<open>ErrorCode\<close>, and the wrapped error itself when it
  does not (nil for a nil wrapped error); through a wrapped \<^verbatim>\<open>CodedError\<close> the answer is that
  of the inner one.
\<close>

theorem CodedError_GetClientData_wrapped:
  "(Err e = Some w \<and> asErrorCode w = Some c \<longrightarrow> CodedError_GetClientData e = ClientData w)
   \<and> (Err e = Some w \<and> asErrorCode w = None \<longrightarrow> CodedError_GetClientData e = ErrVal w)
   \<and> (Err e = None \<longrightarrow> CodedError_GetClientData e = NilValue)
   \<and> (Err e = Some (CodedErr e') \<longrightarrow> CodedError_GetClientData e = CodedError_GetClientData e')"
  by (cases e) auto

theorem CodedError_GetClientData_wrapped_witness:
  "Err (CodedError InvalidInputCode (Some (UserErr ''blocked'' StateCode (Some (7 :: nat)))))
     = Some (UserErr ''blocked'' StateCode (Some 7))
   \<and> asErrorCode (UserErr ''blocked'' StateCode (Some (7 :: nat))) = Some StateCode
   \<and> CodedError_GetClientData
        (CodedError InvalidInputCode (Some (UserErr ''blocked'' StateCode (Some (7 :: nat)))))
       = Data 7
   \<and> asErrorCode (PlainErr ''bad digit'' :: nat error) = None
   \<and> CodedError_GetClientData (CodedError InvalidInputCode (Some (PlainErr ''bad digit'' :: nat error)))
       = ErrVal (PlainErr ''bad digit'')
   \<and> CodedError_GetClientData (CodedError InvalidInputCode (None :: nat error option)) = NilValue
   \<and> CodedError_GetClientData
        (CodedError NotFoundCode
           (Some (CodedErr (CodedError InvalidInputCode (Some (PlainErr ''bad digit'' :: nat error))))))
       = ErrVal (PlainErr ''bad digit'')"
  using CodedError_GetClientData_wrapped
      [of "CodedError InvalidInputCode (Some (UserErr ''blocked'' StateCode (Some (7 :: nat))))"
        "UserErr ''blocked'' StateCode (Some 7)" StateCode]
    CodedError_GetClientData_wrapped
      [of "CodedError InvalidInputCode (Some (PlainErr ''bad digit'' :: nat error))"
        "PlainErr ''bad digit''"]
    CodedError_GetClientData_wrapped
      [of "CodedError InvalidInputCode (None :: nat error option)"]
    CodedError_GetClientData_wrapped
      [of "CodedError NotFoundCode
           (Some (CodedErr (CodedError InvalidInputCode (Some (PlainErr ''bad digit'' :: nat error)))))"
        _ _ "CodedError InvalidInputCode (Some (PlainErr ''bad digit''))"]
  by simp

text \<open>
  Claim C8, as amended. For every \<^verbatim>\<open>CodedError\<close> \<open>e\<close>, \<^verbatim>\<open>e.Cause()\<close> is the wrapped error. For
  every \<open>e\<close> that wraps a non-nil error \<open>w\<close>, \<^verbatim>\<open>e.Error()\<close> is what \<^verbatim>\<open>Error()\<close> of \<open>w\<close> yields,
  unaltered: the same message when \<open>w\<close> returns one (the message \<open>msg\<close> itself for a plain
  error), and the same panic when \<^verbatim>\<open>Error()\<close> of \<open>w\<close> panics. This holds for every result of
  \<^verbatim>\<open>NewCodedError\<close>. A \<^verbatim>\<open>CodedError\<close> whose \<^verbatim>\<open>Err\<close> is nil wraps no error: its \<^verbatim>\<open>Cause()\<close> is nil
  and its \<^verbatim>\<open>Error()\<close> returns no message, it is the panic of a nil dereference.
\<close>

theorem CodedError_Error_transparent:
  "CodedError_Cause e = Err e
   \<and> (Err e = Some w \<longrightarrow> CodedError_Error e = Error w \<and> CodedError_Cause e = Some w)
   \<and> (Err e = Some w \<and> Error w = Inr msg \<longrightarrow> CodedError_Error e = Inr msg)
   \<and> (Err e = Some w \<and> Error w = Inl p \<longrightarrow> CodedError_Error e = Inl p)
   \<and> (Err e = Some (PlainErr msg) \<longrightarrow> CodedError_Error e = Inr msg)
   \<and> (NewCodedError (Some w) D = Inr r \<longrightarrow>
        CodedError_Error r = Error w \<and> CodedError_Cause r = Some w)
   \<and> (Err e = None \<longrightarrow> CodedError_Error e = Inl NilDereference \<and> CodedError_Cause e = None)"
  by (cases e) (auto simp: CodedError_Cause_def NewCodedError_def)

theorem CodedError_Error_transparent_witness:
  "Err (CodedError NotFoundCode (Some (PlainErr ''no such row'' :: unit error)))
     = Some (PlainErr ''no such row'')
   \<and> CodedError_Error (CodedError NotFoundCode (Some (PlainErr ''no such row'' :: unit error)))
       = Inr ''no such row''
   \<and> CodedError_Cause (CodedError NotFoundCode (Some (PlainErr ''no such row'' :: unit error)))
       = Some (PlainErr ''no such row'')
   \<and> NewCodedError (Some (PlainErr ''no such row'' :: unit error)) NotFoundCode
       = Inr (CodedError NotFoundCode (Some (PlainErr ''no such row'')))
   \<and> Err (CodedError NotFoundCode (None :: unit error option)) = None
   \<and> CodedError_Error (CodedError NotFoundCode (None :: unit error option)) = Inl NilDereference
   \<and> Error (CodedErr (CodedError NotFoundCode (None :: unit error option))) = Inl NilDereference
   \<and> NewCodedError (Some (CodedErr (CodedError NotFoundCode (None :: unit error option))))
         InvalidInputCode
       = Inr (CodedError NotFoundCode (Some (CodedErr (CodedError NotFoundCode None))))
   \<and> CodedError_Error
         (CodedError NotFoundCode (Some (CodedErr (CodedError NotFoundCode (None :: unit error option)))))
       = Inl NilDereference"
  using CodedError_Error_transparent
      [of "CodedError NotFoundCode (Some (PlainErr ''no such row'' :: unit error))"
        "PlainErr ''no such row''" "''no such row''" NilDereference NotFoundCode
        "CodedError NotFoundCode (Some (PlainErr ''no such row''))"]
    CodedError_Error_transparent
      [of "CodedError NotFoundCode (None :: unit error option)"
        "PlainErr ''no such row''" "''no such row''" NilDereference NotFoundCode
        "CodedError NotFoundCode (Some (PlainErr ''no such row''))"]
    CodedError_Error_transparent
      [of "CodedError NotFoundCode
             (Some (CodedErr (CodedError NotFoundCode (None :: unit error option))))"
        "CodedErr (CodedError NotFoundCode None)" "''no such row''" NilDereference
        InvalidInputCode
        "CodedError NotFoundCode (Some (CodedErr (CodedError NotFoundCode None)))"]
  by (simp add: NewCodedError_def CodedError_Code_def)

text \<open>
  The claim as it was worded, for every \<^verbatim>\<open>CodedError\<close>, fails on the literal
  \<^verbatim>\<open>CodedError{GetCode: NotFoundCode}\<close>: its \<^verbatim>\<open>Err\<close> is nil and its \<^verbatim>\<open>Error()\<close> returns no string.
\<close>

theorem CodedError_Error_nil_counterexample:
  "Err (CodedError NotFoundCode (None :: unit error option)) = None
   \<and> CodedError_Error (CodedError NotFoundCode (None :: unit error option)) = Inl NilDereference
   \<and> CodedError_Error (CodedError NotFoundCode (None :: unit error option)) \<noteq> Inr []"
  by simp

text \<open>
  Claim C9. \<^verbatim>\<open>NewCodedError\<close>, \<^verbatim>\<open>NewInternalErr\<close> and \<^verbatim>\<open>NewUnimplementedErr\<close> panic exactly
  when the error they are given is nil, each with its own message; given a non-nil error
  \<open>e\<close>, each returns.
\<close>

theorem nil_error_panics:
  "(NewCodedError (err :: 'd error option) c = Inl p)
     = (err = None \<and> p = PanicStr ''NewCodedError error is nil'')
   \<and> (NewInternalErr err = Inl p)
     = (err = None \<and> p = PanicStr ''makeInternalStackCode error is nil'')
   \<and> (NewUnimplementedErr err = Inl p)
     = (err = None \<and> p = PanicStr ''makeInternalStackCode error is nil'')
   \<and> (\<exists>r. NewCodedError (Some e) c = Inr r)
   \<and> (\<exists>r. NewInternalErr (Some e) = Inr r)
   \<and> (\<exists>r. NewUnimplementedErr (Some e) = Inr r)"
proof -
  have coded: "(NewCodedError err c = Inl p)
      = (err = None \<and> p = PanicStr ''NewCodedError error is nil'')"
    by (cases err) (auto simp: NewCodedError_def)
  have internal: "(NewInternalErr err = Inl p)
      = (err = None \<and> p = PanicStr ''makeInternalStackCode error is nil'')"
    by (cases err) (auto simp: NewInternalErr_Some NewInternalErr_None)
  have unimplemented: "(NewUnimplementedErr err = Inl p)
      = (err = None \<and> p = PanicStr ''makeInternalStackCode error is nil'')"
    by (cases err) (auto simp: NewUnimplementedErr_Some NewUnimplementedErr_None)
  have returns: "\<exists>r. NewCodedError (Some e) c = Inr r"
    by (simp add: NewCodedError_def)
  from coded internal unimplemented returns show ?thesis
    by (simp add: NewInternalErr_Some NewUnimplementedErr_Some)
qed

text \<open>
  Claim C10. Every error returned by \<^verbatim>\<open>NewInternalErr\<close> or \<^verbatim>\<open>NewUnimplementedErr\<close> has a
  code in the internal family: \<^verbatim>\<open>InternalCode\<close> is the code or one of its ancestors. The same
  holds for every function that \<^verbatim>\<open>makeInternalStackCode\<close> builds; building one for a default
  code outside the family panics; and the two defaults, \<^verbatim>\<open>InternalCode\<close> and its child
  \<^verbatim>\<open>UnimplementedCode\<close>, are in the family.
\<close>

theorem internal_family_invariant:
  "(NewInternalErr err = Inr r \<longrightarrow>
      IsAncestor (stackErrorCode_Code r) InternalCode
      \<and> InternalCode \<in> set (ancestry (stackErrorCode_Code r)))
   \<and> (NewUnimplementedErr err = Inr r \<longrightarrow>
      IsAncestor (stackErrorCode_Code r) InternalCode
      \<and> InternalCode \<in> set (ancestry (stackErrorCode_Code r)))
   \<and> (makeInternalStackCode d = Inr f \<and> f err = Inr s \<longrightarrow>
        IsAncestor d InternalCode \<and> IsAncestor (StackCode_Code s) InternalCode)
   \<and> (\<not> IsAncestor d InternalCode \<longrightarrow>
        (makeInternalStackCode d :: panic + ('d error option \<Rightarrow> panic + 'd StackCode))
          = Inl (NotInternalCode d))
   \<and> IsAncestor InternalCode InternalCode
   \<and> IsAncestor UnimplementedCode InternalCode
   \<and> Parent UnimplementedCode = Some InternalCode"
proof -
  have made: "IsAncestor d InternalCode \<and> IsAncestor (StackCode_Code s) InternalCode"
    if "makeInternalStackCode d = Inr f" "f err = Inr s" for d f s
    using that by (rule makeInternalStackCode_family)
  have internal: "IsAncestor (stackErrorCode_Code r) InternalCode"
    if "NewInternalErr err = Inr r"
    using that made [of InternalCode]
    by (auto simp: NewInternalErr_def split: sum.splits)
  have unimplemented: "IsAncestor (stackErrorCode_Code r) InternalCode"
    if "NewUnimplementedErr err = Inr r"
    using that made [of UnimplementedCode]
    by (auto simp: NewUnimplementedErr_def split: sum.splits)
  have build_time: "(makeInternalStackCode d :: panic + ('d error option \<Rightarrow> panic + 'd StackCode))
      = Inl (NotInternalCode d)" if "\<not> IsAncestor d InternalCode"
    using that by (simp add: makeInternalStackCode_def)
  have "Parent UnimplementedCode = Some InternalCode"
    by (simp add: UnimplementedCode_def)
  with made internal unimplemented build_time Internal_in_family Unimplemented_in_family
  show ?thesis
    unfolding IsAncestor_ancestry by blast
qed

theorem internal_family_invariant_witness:
  "NewInternalErr (Some (UserErr ''no such row'' NotFoundCode (None :: unit option)))
     = Inr (internalErr (StackCode
         (CodedError InternalCode (Some (UserErr ''no such row'' NotFoundCode None))) 3))
   \<and> IsAncestor (stackErrorCode_Code (internalErr (StackCode
         (CodedError InternalCode
            (Some (UserErr ''no such row'' NotFoundCode (None :: unit option)))) 3)))
       InternalCode
   \<and> NewUnimplementedErr (Some (PlainErr ''later'' :: unit error))
     = Inr (unimplementedErr (StackCode
         (CodedError UnimplementedCode (Some (PlainErr ''later''))) 3))
   \<and> IsAncestor (stackErrorCode_Code (unimplementedErr (StackCode
         (CodedError UnimplementedCode (Some (PlainErr ''later'' :: unit error))) 3)))
       InternalCode
   \<and> \<not> IsAncestor NotFoundCode InternalCode
   \<and> (makeInternalStackCode NotFoundCode
        :: panic + (unit error option \<Rightarrow> panic + unit StackCode))
       = Inl (NotInternalCode NotFoundCode)
   \<and> (\<exists>f s. makeInternalStackCode UnimplementedCode = Inr f
         \<and> f (Some (PlainErr ''later'' :: unit error)) = Inr s
         \<and> IsAncestor (StackCode_Code s) InternalCode)"
proof -
  let ?missing = "UserErr ''no such row'' NotFoundCode (None :: unit option)"
  let ?later = "PlainErr ''later'' :: unit error"
  have internal: "NewInternalErr (Some ?missing)
      = Inr (internalErr (StackCode (CodedError InternalCode (Some ?missing)) 3))"
    by (simp add: NewInternalErr_Some NotFound_outside_family)
  have unimplemented: "NewUnimplementedErr (Some ?later)
      = Inr (unimplementedErr (StackCode (CodedError UnimplementedCode (Some ?later)) 3))"
    by (simp add: NewUnimplementedErr_Some)
  have internal_fam: "IsAncestor (stackErrorCode_Code (internalErr (StackCode
      (CodedError InternalCode (Some ?missing)) 3))) InternalCode
      \<and> InternalCode \<in> set (ancestry (stackErrorCode_Code (internalErr (StackCode
      (CodedError InternalCode (Some ?missing)) 3))))"
    by (rule internal_family_invariant [THEN conjunct1, THEN mp, OF internal])
  have unimplemented_fam: "IsAncestor (stackErrorCode_Code (unimplementedErr (StackCode
      (CodedError UnimplementedCode (Some ?later)) 3))) InternalCode
      \<and> InternalCode \<in> set (ancestry (stackErrorCode_Code (unimplementedErr (StackCode
      (CodedError UnimplementedCode (Some ?later)) 3))))"
    by (rule internal_family_invariant
        [THEN conjunct2, THEN conjunct1, THEN mp, OF unimplemented])
  have refused: "(makeInternalStackCode NotFoundCode
      :: panic + (unit error option \<Rightarrow> panic + unit StackCode))
      = Inl (NotInternalCode NotFoundCode)"
    by (rule internal_family_invariant
        [THEN conjunct2, THEN conjunct2, THEN conjunct2, THEN conjunct1, THEN mp,
          OF NotFound_outside_family])
  obtain f :: "unit error option \<Rightarrow> panic + unit StackCode"
    where f: "makeInternalStackCode UnimplementedCode = Inr f"
    by (simp add: makeInternalStackCode_def Unimplemented_in_family)
  from makeInternalStackCode_Inr [OF f, of ?later]
  obtain s where s: "f (Some ?later) = Inr s"
    by simp
  from f s have "makeInternalStackCode UnimplementedCode = Inr f \<and> f (Some ?later) = Inr s"
    by simp
  from internal_family_invariant [THEN conjunct2, THEN conjunct2, THEN conjunct1, THEN mp, OF this]
  have "IsAncestor (StackCode_Code s) InternalCode"
    by simp
  with f s have made: "\<exists>f s. makeInternalStackCode UnimplementedCode = Inr f
      \<and> f (Some ?later) = Inr s \<and> IsAncestor (StackCode_Code s) InternalCode"
    by blast
  from internal internal_fam unimplemented unimplemented_fam NotFound_outside_family refused made
  show ?thesis
    by simp
qed

end
